theory Spec2Isabelle
  imports Complex_Main
begin

section \<open>Python values, errors and the random source\<close>

text \<open>
  The program is a single Python module. Its numbers (Python floats and ints, numpy
  scalars) are idealised as \<open>real\<close>: every arithmetic expression of the source is kept
  as written, evaluated over the reals. Exceptions are values of \<open>error\<close>; a computation
  that draws random numbers, asks Faker for a name or reads the clock threads a
  \<open>world\<close> and returns \<open>Inl\<close> of the exception or \<open>Inr\<close> of its result and the world
  left behind.
\<close>

datatype error = KeyError string | IndexError | ValueError | TypeError | ZeroDivisionError
  | OverflowError

record world =
  entropy :: "nat \<Rightarrow> nat"
  companies :: "nat \<Rightarrow> string"
  clock :: "nat \<Rightarrow> int"
  strftime :: "int \<Rightarrow> string"

type_synonym 'a io = "world \<Rightarrow> error + ('a \<times> world)"

definition return_io :: "'a \<Rightarrow> 'a io" where
  "return_io x = (\<lambda>w. Inr (x, w))"

definition bind_io :: "'a io \<Rightarrow> ('a \<Rightarrow> 'b io) \<Rightarrow> 'b io" where
  "bind_io m f = (\<lambda>w. case m w of Inl e \<Rightarrow> Inl e | Inr (x, w') \<Rightarrow> f x w')"

definition lift_io :: "error + 'a \<Rightarrow> 'a io" where
  "lift_io r = (\<lambda>w. case r of Inl e \<Rightarrow> Inl e | Inr x \<Rightarrow> Inr (x, w))"

text \<open>
  \<open>entropy\<close> is the stream of raw draws of the process-global generator of the
  \<open>random\<close> module; every call of one of its functions takes the head of the stream.
\<close>

definition getrandbits :: "nat io" where
  "getrandbits = (\<lambda>w. Inr (entropy w 0, w\<lparr>entropy := \<lambda>k. entropy w (Suc k)\<rparr>))"

text \<open>\<open>random.random()\<close>: a multiple of \<open>2\<^sup>-\<^sup>5\<^sup>3\<close> in \<open>[0, 1)\<close>.\<close>

definition random_random :: "real io" where
  "random_random = bind_io getrandbits (\<lambda>r. return_io (real (r mod 2 ^ 53) / 2 ^ 53))"

text \<open>\<open>random.uniform(a, b)\<close> is \<open>a + (b - a) * random()\<close>.\<close>

definition random_uniform :: "real \<Rightarrow> real \<Rightarrow> real io" where
  "random_uniform a b = bind_io random_random (\<lambda>u. return_io (a + (b - a) * u))"

text \<open>\<open>random.randint(a, b)\<close> is \<open>randrange(a, b + 1)\<close>: ValueError on an empty range.\<close>

definition random_randint :: "int \<Rightarrow> int \<Rightarrow> int io" where
  "random_randint a b =
     (if b + 1 - a \<le> 0 then lift_io (Inl ValueError)
      else bind_io getrandbits (\<lambda>r. return_io (a + int (r mod nat (b + 1 - a)))))"

text \<open>\<open>random.choice(seq)\<close>: IndexError on an empty sequence, else a uniform index.\<close>

definition random_choice :: "'a list \<Rightarrow> 'a io" where
  "random_choice seq =
     (if seq = [] then lift_io (Inl IndexError)
      else bind_io getrandbits (\<lambda>r. return_io (seq ! (r mod length seq))))"

text \<open>
  \<open>random.choices(population, weights)\<close> with \<open>k = 1\<close>: the cumulative weights are
  bisected (to the right, among all but the last) at \<open>random() * total\<close>.
\<close>

fun accumulate :: "real \<Rightarrow> real list \<Rightarrow> real list" where
  "accumulate acc [] = []"
| "accumulate acc (x # xs) = (acc + x) # accumulate (acc + x) xs"

definition bisect :: "real list \<Rightarrow> real \<Rightarrow> nat \<Rightarrow> nat" where
  "bisect a x hi = length (takeWhile (\<lambda>c. c \<le> x) (take hi a))"

definition random_choices :: "'a list \<Rightarrow> real list \<Rightarrow> 'a list io" where
  "random_choices population weights =
     (let cum_weights = accumulate 0 weights in
      if length cum_weights \<noteq> length population then lift_io (Inl ValueError)
      else if cum_weights = [] then lift_io (Inl IndexError)
      else if last cum_weights \<le> 0 then lift_io (Inl ValueError)
      else bind_io random_random (\<lambda>u.
        return_io [population ! bisect cum_weights (u * last cum_weights) (length population - 1)]))"

definition subscript0 :: "'a list \<Rightarrow> 'a io" where
  "subscript0 xs = (case xs of [] \<Rightarrow> lift_io (Inl IndexError) | x # _ \<Rightarrow> return_io x)"

text \<open>\<open>Faker().company()\<close> draws from Faker's own generator; \<open>datetime.now()\<close> reads the
  clock, here as the ordinal of the day.\<close>

definition fake_company :: "string io" where
  "fake_company = (\<lambda>w. Inr (companies w 0, w\<lparr>companies := \<lambda>k. companies w (Suc k)\<rparr>))"

definition datetime_now :: "int io" where
  "datetime_now = (\<lambda>w. Inr (clock w 0, w\<lparr>clock := \<lambda>k. clock w (Suc k)\<rparr>))"

definition format_date :: "int \<Rightarrow> string io" where
  "format_date d = (\<lambda>w. Inr (strftime w d, w))"

text \<open>\<open>round(x, 2)\<close>: to the nearest hundredth, ties to the even one.\<close>

definition round_half_even :: "real \<Rightarrow> int" where
  "round_half_even x =
     (let f = \<lfloor>x\<rfloor>; d = x - of_int f in
      if d < 1 / 2 then f else if 1 / 2 < d then f + 1 else if even f then f else f + 1)"

definition round2 :: "real \<Rightarrow> real" where
  "round2 x = of_int (round_half_even (x * 100)) / 100"

subsection \<open>Decimal rendering of integers in f-strings\<close>

definition digit :: "nat \<Rightarrow> char" where
  "digit d = char_of (48 + d)"

fun str_nat :: "nat \<Rightarrow> string" where
  "str_nat n = (if n < 10 then [digit n] else str_nat (n div 10) @ [digit (n mod 10)])"

declare str_nat.simps [simp del]

definition str_int :: "int \<Rightarrow> string" where
  "str_int i = (if i < 0 then CHR ''-'' # str_nat (nat (- i)) else str_nat (nat i))"

text \<open>A list comprehension \<open>[f(i) for i in xs]\<close> whose body has effects.\<close>

fun comprehension :: "('b \<Rightarrow> 'a io) \<Rightarrow> 'b list \<Rightarrow> 'a list io" where
  "comprehension f [] = return_io []"
| "comprehension f (i # is) =
     bind_io (f i) (\<lambda>x. bind_io (comprehension f is) (\<lambda>xs. return_io (x # xs)))"

text \<open>\<open>range(count)\<close>: empty for a count that is zero or negative.\<close>

definition py_range :: "int \<Rightarrow> int list" where
  "py_range count = [0..count - 1]"

section \<open>Synthetic data generator\<close>

record lead =
  lead_id :: string
  lead_name :: string
  lead_source :: string
  lead_date :: string
  lead_status :: string

record opportunity =
  opp_id :: string
  opp_lead_id :: string
  opp_amount :: real
  opp_product :: string
  opp_stage :: string
  opp_owner :: string
  opp_created_date :: string
  opp_close_date :: string

record deal =
  deal_id :: string
  deal_opportunity_id :: string
  deal_amount :: real
  deal_close_date :: string
  deal_status :: string

definition products :: "string list" where
  "products = [''Product A'', ''Product B'', ''Product C'']"

definition stages :: "string list" where
  "stages = [''Prospecting'', ''Qualification'', ''Demo'', ''Proposal'', ''Negotiation'',
     ''Closed Won'', ''Closed Lost'']"

definition gen_lead :: "int \<Rightarrow> lead io" where
  "gen_lead i =
     bind_io fake_company (\<lambda>name.
     bind_io (random_choice [''Web'', ''Referral'', ''Event'', ''Cold Call'']) (\<lambda>source.
     bind_io datetime_now (\<lambda>now.
     bind_io (random_randint 0 30) (\<lambda>days.
     bind_io (format_date (now - days)) (\<lambda>date.
     bind_io (random_choice [''New'', ''Contacted'', ''Qualified'', ''Disqualified'']) (\<lambda>status.
     return_io \<lparr>lead_id = ''L'' @ str_int (1000 + i), lead_name = name, lead_source = source,
       lead_date = date, lead_status = status\<rparr>))))))"

definition generate_leads :: "int \<Rightarrow> lead list io" where
  "generate_leads count = comprehension gen_lead (py_range count)"

definition gen_opportunity :: "int \<Rightarrow> opportunity io" where
  "gen_opportunity i =
     bind_io (random_randint 0 99) (\<lambda>lead_no.
     bind_io (random_uniform 1000 50000) (\<lambda>amount.
     bind_io (random_choice products) (\<lambda>product.
     bind_io (random_choice stages) (\<lambda>stage.
     bind_io (random_randint 1 5) (\<lambda>owner_no.
     bind_io datetime_now (\<lambda>now1.
     bind_io (random_randint 0 90) (\<lambda>days1.
     bind_io (format_date (now1 - days1)) (\<lambda>created_date.
     bind_io datetime_now (\<lambda>now2.
     bind_io (random_randint 0 60) (\<lambda>days2.
     bind_io (format_date (now2 + days2)) (\<lambda>close_date.
     return_io \<lparr>opp_id = ''O'' @ str_int (2000 + i),
       opp_lead_id = ''L'' @ str_int (1000 + lead_no), opp_amount = round2 amount,
       opp_product = product, opp_stage = stage, opp_owner = ''Sales-'' @ str_int owner_no,
       opp_created_date = created_date, opp_close_date = close_date\<rparr>)))))))))))"

definition generate_opportunities :: "int \<Rightarrow> opportunity list io" where
  "generate_opportunities count = comprehension gen_opportunity (py_range count)"

definition gen_closed_deal :: "int \<Rightarrow> deal io" where
  "gen_closed_deal i =
     bind_io (random_randint 0 49) (\<lambda>opp_no.
     bind_io (random_uniform 1000 50000) (\<lambda>amount.
     bind_io datetime_now (\<lambda>now.
     bind_io (random_randint 0 30) (\<lambda>days.
     bind_io (format_date (now - days)) (\<lambda>close_date.
     bind_io (random_choices [''Closed Won'', ''Closed Lost''] [7 / 10, 3 / 10]) (\<lambda>drawn.
     bind_io (subscript0 drawn) (\<lambda>status.
     return_io \<lparr>deal_id = ''D'' @ str_int (3000 + i),
       deal_opportunity_id = ''O'' @ str_int (2000 + opp_no), deal_amount = round2 amount,
       deal_close_date = close_date, deal_status = status\<rparr>)))))))"

definition generate_closed_deals :: "int \<Rightarrow> deal list io" where
  "generate_closed_deals count = comprehension gen_closed_deal (py_range count)"

section \<open>Data collector\<close>

record data =
  leads :: "lead list"
  opportunities :: "opportunity list"
  closed_deals :: "deal list"

definition collect_data :: "data io" where
  "collect_data =
     bind_io (generate_leads 100) (\<lambda>ls.
     bind_io (generate_opportunities 50) (\<lambda>os.
     bind_io (generate_closed_deals 30) (\<lambda>ds.
     return_io \<lparr>leads = ls, opportunities = os, closed_deals = ds\<rparr>)))"

section \<open>Data quality checker\<close>

text \<open>
  The checker takes any mapping from dataset names to lists of records. A record is a
  Python dict, kept as the list of its items in insertion order; a value is \<open>None\<close>
  or \<open>Some v\<close> for a value \<open>v\<close> other than Python's \<open>None\<close>, and \<open>fmt\<close> is what
  an f-string prints for such a value.
\<close>

type_synonym 'v pydict = "(string \<times> 'v option) list"

definition dict_get :: "'v pydict \<Rightarrow> string \<Rightarrow> 'v option" where
  "dict_get record k = (case map_of record k of None \<Rightarrow> None | Some v \<Rightarrow> v)"

definition format_value :: "('v \<Rightarrow> string) \<Rightarrow> 'v option \<Rightarrow> string" where
  "format_value fmt v = (case v of None \<Rightarrow> ''None'' | Some x \<Rightarrow> fmt x)"

definition any_none :: "'v pydict \<Rightarrow> bool" where
  "any_none record = list_ex (\<lambda>v. v = None) (map snd record)"

fun check_records :: "('v \<Rightarrow> string) \<Rightarrow> string \<Rightarrow> 'v pydict list \<Rightarrow> string list \<Rightarrow> string list" where
  "check_records fmt dataset_name [] issues = issues"
| "check_records fmt dataset_name (record # records) issues =
     check_records fmt dataset_name records
       (if any_none record
        then issues @ [''Missing data in '' @ dataset_name @ '' record '' @
               format_value fmt (dict_get record ''id'')]
        else issues)"

fun check_datasets :: "('v \<Rightarrow> string) \<Rightarrow> (string \<times> 'v pydict list) list \<Rightarrow> string list \<Rightarrow> string list" where
  "check_datasets fmt [] issues = issues"
| "check_datasets fmt ((dataset_name, records) # items) issues =
     check_datasets fmt items (check_records fmt dataset_name records issues)"

definition check_completeness :: "('v \<Rightarrow> string) \<Rightarrow> (string \<times> 'v pydict list) list \<Rightarrow> string list" where
  "check_completeness fmt data_items = check_datasets fmt data_items []"

section \<open>KPI calculator\<close>

text \<open>
  The calculator reads the three collections as records of the data model. A
  \<open>pandas.DataFrame\<close> built from a list of such records has one row per record and the
  records' keys as columns; built from the empty list it has no rows and no columns.
  Selecting a column that the frame does not have raises KeyError; selecting rows by a
  boolean mask keeps the columns.
\<close>

record 'a frame =
  columns :: "string list"
  rows :: "'a list"

definition DataFrame :: "string list \<Rightarrow> 'a list \<Rightarrow> 'a frame" where
  "DataFrame keys records = \<lparr>columns = (if records = [] then [] else keys), rows = records\<rparr>"

definition lead_keys :: "string list" where
  "lead_keys = [''id'', ''name'', ''source'', ''date'', ''status'']"

definition opportunity_keys :: "string list" where
  "opportunity_keys = [''id'', ''lead_id'', ''amount'', ''product'', ''stage'', ''owner'',
     ''created_date'', ''close_date'']"

definition deal_keys :: "string list" where
  "deal_keys = [''id'', ''opportunity_id'', ''amount'', ''close_date'', ''status'']"

definition getitem :: "'a frame \<Rightarrow> string \<Rightarrow> ('a \<Rightarrow> 'b) \<Rightarrow> error + 'b list" where
  "getitem df key field =
     (if key \<in> set (columns df) then Inr (map field (rows df)) else Inl (KeyError key))"

definition loc :: "'a frame \<Rightarrow> bool list \<Rightarrow> 'a frame" where
  "loc df keep = df\<lparr>rows := map fst (filter snd (zip (rows df) keep))\<rparr>"

definition len :: "'a frame \<Rightarrow> nat" where
  "len df = length (rows df)"

definition empty_frame :: "'a frame \<Rightarrow> bool" where
  "empty_frame df = (rows df = [] \<or> columns df = [])"

datatype kval = Num real | NaN | Sub "(string \<times> real) list"

definition series_sum :: "real list \<Rightarrow> real" where
  "series_sum xs = sum_list xs"

definition series_mean :: "real list \<Rightarrow> kval" where
  "series_mean xs = (if xs = [] then NaN else Num (sum_list xs / real (length xs)))"

definition truediv :: "nat \<Rightarrow> nat \<Rightarrow> error + real" where
  "truediv a b = (if b = 0 then Inl ZeroDivisionError else Inr (real a / real b))"

definition stage_draw :: "string \<Rightarrow> (string \<times> real) io" where
  "stage_draw stage = bind_io (random_uniform (2 / 10) (8 / 10)) (\<lambda>u. return_io (stage, u))"

definition kpi_dict ::
  "lead frame \<Rightarrow> deal frame \<Rightarrow> nat \<Rightarrow> opportunity frame \<Rightarrow> lead frame \<Rightarrow> (string \<times> kval) list io" where
  "kpi_dict df_leads won_deals total_deals open_opps qualified_leads =
     bind_io (lift_io (getitem won_deals ''amount'' deal_amount)) (\<lambda>won_amount.
     bind_io (if \<not> empty_frame won_deals
              then bind_io (lift_io (getitem won_deals ''amount'' deal_amount))
                     (\<lambda>a. return_io (series_mean a))
              else return_io (Num 0)) (\<lambda>average_deal_size.
     bind_io (if total_deals > 0
              then bind_io (lift_io (truediv (len won_deals) total_deals))
                     (\<lambda>q. return_io (Num (q * 100)))
              else return_io (Num 0)) (\<lambda>win_rate.
     bind_io (random_uniform 14 45) (\<lambda>sales_cycle_days.
     bind_io (random_uniform 70 120) (\<lambda>quota_attainment.
     bind_io (lift_io (getitem open_opps ''amount'' opp_amount)) (\<lambda>open_amount.
     bind_io (lift_io (getitem open_opps ''amount'' opp_amount)) (\<lambda>open_amount2.
     bind_io (random_uniform 80 95) (\<lambda>forecast_accuracy.
     bind_io (comprehension stage_draw [''Prospecting'', ''Qualification'', ''Demo'']) (\<lambda>stage_conversion.
     bind_io (if len open_opps \<noteq> 0
              then bind_io (lift_io (getitem open_opps ''amount'' opp_amount))
                     (\<lambda>a. return_io (Num (series_sum a / 100000)))
              else return_io (Num 0)) (\<lambda>coverage_ratio.
     bind_io (if len df_leads > 0
              then bind_io (lift_io (truediv (len qualified_leads) (len df_leads)))
                     (\<lambda>q. return_io (Num (q * 100)))
              else return_io (Num 0)) (\<lambda>lead_conversion_rate.
     bind_io (random_uniform 50 200) (\<lambda>cost_per_lead.
     bind_io (random_uniform 20 50) (\<lambda>mql_to_sql.
     bind_io (random_uniform 1 5) (\<lambda>website_conversion.
     bind_io (random_uniform 500 2000) (\<lambda>cac.
     return_io
       [(''monthly_revenue'', Num (series_sum won_amount)),
        (''average_deal_size'', average_deal_size),
        (''win_rate'', win_rate),
        (''sales_cycle_days'', Num sales_cycle_days),
        (''quota_attainment'', Num quota_attainment),
        (''pipeline_value'', Num (series_sum open_amount)),
        (''pipeline_velocity'', Num (series_sum open_amount2 * (7 / 10) / 30)),
        (''forecast_accuracy'', Num forecast_accuracy),
        (''stage_conversion'', Sub stage_conversion),
        (''coverage_ratio'', coverage_ratio),
        (''lead_conversion_rate'', lead_conversion_rate),
        (''cost_per_lead'', Num cost_per_lead),
        (''mql_to_sql'', Num mql_to_sql),
        (''website_conversion'', Num website_conversion),
        (''cac'', Num cac)])))))))))))))))"

definition calculate :: "data \<Rightarrow> (string \<times> kval) list io" where
  "calculate d =
     (let df_leads = DataFrame lead_keys (leads d);
          df_opps = DataFrame opportunity_keys (opportunities d);
          df_deals = DataFrame deal_keys (closed_deals d) in
      bind_io (lift_io (getitem df_deals ''status'' deal_status)) (\<lambda>status1.
      let won_deals = loc df_deals (map (\<lambda>s. s = ''Closed Won'') status1) in
      bind_io (lift_io (getitem df_deals ''status'' deal_status)) (\<lambda>status2.
      let lost_deals = loc df_deals (map (\<lambda>s. s = ''Closed Lost'') status2);
          total_deals = len won_deals + len lost_deals in
      bind_io (lift_io (getitem df_opps ''stage'' opp_stage)) (\<lambda>stage.
      let open_opps = loc df_opps (map (\<lambda>s. s \<notin> set [''Closed Won'', ''Closed Lost'']) stage) in
      bind_io (lift_io (getitem df_leads ''status'' lead_status)) (\<lambda>status3.
      let qualified_leads = loc df_leads (map (\<lambda>s. s = ''Qualified'') status3) in
      kpi_dict df_leads won_deals total_deals open_opps qualified_leads)))))"

section \<open>Forecaster\<close>

definition dict_item :: "(string \<times> kval) list \<Rightarrow> string \<Rightarrow> error + kval" where
  "dict_item kpis key = (case map_of kpis key of None \<Rightarrow> Inl (KeyError key) | Some v \<Rightarrow> Inr v)"

definition dict_get_default :: "(string \<times> kval) list \<Rightarrow> string \<Rightarrow> kval \<Rightarrow> kval" where
  "dict_get_default kpis key dflt = (case map_of kpis key of None \<Rightarrow> dflt | Some v \<Rightarrow> v)"

fun py_mul :: "kval \<Rightarrow> kval \<Rightarrow> error + kval" where
  "py_mul (Num a) (Num b) = Inr (Num (a * b))"
| "py_mul (Num a) NaN = Inr NaN"
| "py_mul NaN (Num b) = Inr NaN"
| "py_mul NaN NaN = Inr NaN"
| "py_mul (Sub a) y = Inl TypeError"
| "py_mul (Num a) (Sub b) = Inl TypeError"
| "py_mul NaN (Sub b) = Inl TypeError"

definition trunc :: "real \<Rightarrow> int" where
  "trunc x = (if 0 \<le> x then \<lfloor>x\<rfloor> else \<lceil>x\<rceil>)"

text \<open>
  \<open>int(x)\<close> of a float truncates towards zero. A float result beyond the largest finite
  double, \<open>2\<^sup>1\<^sup>0\<^sup>2\<^sup>4 - 2\<^sup>9\<^sup>7\<^sup>1\<close>, is an infinity, and \<open>int\<close> of an infinity raises
  OverflowError; \<open>int\<close> of a NaN raises ValueError and \<open>int\<close> of a dict TypeError.
\<close>

definition float_max :: real where
  "float_max = 2 ^ 1024 - 2 ^ 971"

fun py_int :: "kval \<Rightarrow> error + kval" where
  "py_int (Num a) =
     (if float_max < \<bar>a\<bar> then Inl OverflowError else Inr (Num (of_int (trunc a))))"
| "py_int NaN = Inl ValueError"
| "py_int (Sub a) = Inl TypeError"

definition forecast :: "(string \<times> kval) list \<Rightarrow> (string \<times> kval) list io" where
  "forecast kpis =
     bind_io (lift_io (dict_item kpis ''monthly_revenue'')) (\<lambda>monthly_revenue.
     bind_io (random_uniform (9 / 10) (12 / 10)) (\<lambda>multiplier.
     bind_io (lift_io (py_mul monthly_revenue (Num multiplier))) (\<lambda>next_30d_revenue.
     bind_io (lift_io (py_mul (dict_get_default kpis ''lead_conversion_rate'' (Num 0)) (Num 2))) (\<lambda>doubled.
     bind_io (lift_io (py_int doubled)) (\<lambda>next_30d_leads.
     return_io [(''next_30d_revenue'', next_30d_revenue), (''next_30d_leads'', next_30d_leads)])))))"

section \<open>Notions used in the verification\<close>

text \<open>\<open>returns m P\<close>: from every world, \<open>m\<close> raises nothing and its result satisfies \<open>P\<close>.\<close>

definition returns :: "'a io \<Rightarrow> ('a \<Rightarrow> bool) \<Rightarrow> bool" where
  "returns m P = (\<forall>w. \<exists>x w'. m w = Inr (x, w') \<and> P x)"

text \<open>Reading a decimal numeral back, to show that rendering is injective.\<close>

definition digit_value :: "char \<Rightarrow> nat" where
  "digit_value c = of_char c - 48"

definition decimal_value :: "string \<Rightarrow> nat" where
  "decimal_value s = foldl (\<lambda>a c. 10 * a + digit_value c) 0 s"

text \<open>
  The \<open>i\<close>-th draw of a world as \<open>random()\<close> and as \<open>uniform(a, b)\<close> would return it,
  and the world after \<open>n\<close> draws.
\<close>

definition unit_draw :: "world \<Rightarrow> nat \<Rightarrow> real" where
  "unit_draw w i = real (entropy w i mod 2 ^ 53) / 2 ^ 53"

definition uniform_draw :: "world \<Rightarrow> nat \<Rightarrow> real \<Rightarrow> real \<Rightarrow> real" where
  "uniform_draw w i a b = a + (b - a) * unit_draw w i"

definition skip :: "nat \<Rightarrow> world \<Rightarrow> world" where
  "skip n w = w\<lparr>entropy := \<lambda>k. entropy w (k + n)\<rparr>"

text \<open>
  The aggregations as the specification words them, over the plain lists: sums, means
  and ratios of the filtered collections, with 0 where a denominator would be 0, and the
  ten placeholder metrics in the order in which the calculator draws them.
\<close>

definition kpi_formulas :: "data \<Rightarrow> world \<Rightarrow> (string \<times> kval) list" where
  "kpi_formulas d w =
     (let won = filter (\<lambda>x. deal_status x = ''Closed Won'') (closed_deals d);
          lost = filter (\<lambda>x. deal_status x = ''Closed Lost'') (closed_deals d);
          opn = filter (\<lambda>x. opp_stage x \<noteq> ''Closed Won'' \<and> opp_stage x \<noteq> ''Closed Lost'')
                  (opportunities d);
          qualified = filter (\<lambda>x. lead_status x = ''Qualified'') (leads d);
          pipeline_value = sum_list (map opp_amount opn)
      in
       [(''monthly_revenue'', Num (sum_list (map deal_amount won))),
        (''average_deal_size'',
           Num (if won = [] then 0 else sum_list (map deal_amount won) / real (length won))),
        (''win_rate'',
           Num (if length won + length lost = 0 then 0
                else real (length won) / real (length won + length lost) * 100)),
        (''sales_cycle_days'', Num (uniform_draw w 0 14 45)),
        (''quota_attainment'', Num (uniform_draw w 1 70 120)),
        (''pipeline_value'', Num pipeline_value),
        (''pipeline_velocity'', Num (pipeline_value * (7 / 10) / 30)),
        (''forecast_accuracy'', Num (uniform_draw w 2 80 95)),
        (''stage_conversion'',
           Sub [(''Prospecting'', uniform_draw w 3 (2 / 10) (8 / 10)),
                (''Qualification'', uniform_draw w 4 (2 / 10) (8 / 10)),
                (''Demo'', uniform_draw w 5 (2 / 10) (8 / 10))]),
        (''coverage_ratio'', Num (if opn = [] then 0 else pipeline_value / 100000)),
        (''lead_conversion_rate'',
           Num (if leads d = [] then 0
                else real (length qualified) / real (length (leads d)) * 100)),
        (''cost_per_lead'', Num (uniform_draw w 6 50 200)),
        (''mql_to_sql'', Num (uniform_draw w 7 20 50)),
        (''website_conversion'', Num (uniform_draw w 8 1 5)),
        (''cac'', Num (uniform_draw w 9 500 2000))])"

text \<open>The issue the checker reports for one record, and the issues of one dataset.\<close>

definition issue_of :: "('v \<Rightarrow> string) \<Rightarrow> string \<Rightarrow> 'v pydict \<Rightarrow> string" where
  "issue_of fmt dataset_name record =
     ''Missing data in '' @ dataset_name @ '' record '' @ format_value fmt (dict_get record ''id'')"

definition issues_of :: "('v \<Rightarrow> string) \<Rightarrow> string \<times> 'v pydict list \<Rightarrow> string list" where
  "issues_of fmt item = map (issue_of fmt (fst item)) (filter any_none (snd item))"

text \<open>
  Concrete inputs: two worlds whose every raw draw is 0 (respectively 3), and the
  collections of the specification's worked example: seven won deals of 10000 and three
  lost ones, open opportunities of 1000 and 4000, one qualified lead among four.
\<close>

definition world_zeros :: world where
  "world_zeros = \<lparr>entropy = (\<lambda>k. 0), companies = (\<lambda>k. ''Acme''), clock = (\<lambda>k. 739000),
     strftime = str_int\<rparr>"

definition world_threes :: world where
  "world_threes = \<lparr>entropy = (\<lambda>k. 3), companies = (\<lambda>k. ''Acme''), clock = (\<lambda>k. 739000),
     strftime = str_int\<rparr>"

definition lead_q :: lead where
  "lead_q = \<lparr>lead_id = ''L1000'', lead_name = ''Acme'', lead_source = ''Web'',
     lead_date = ''2026-01-01'', lead_status = ''Qualified''\<rparr>"

definition lead_n :: lead where
  "lead_n = \<lparr>lead_id = ''L1001'', lead_name = ''Bolt'', lead_source = ''Event'',
     lead_date = ''2026-01-02'', lead_status = ''New''\<rparr>"

definition opp_demo :: opportunity where
  "opp_demo = \<lparr>opp_id = ''O2000'', opp_lead_id = ''L1000'', opp_amount = 1000,
     opp_product = ''Product A'', opp_stage = ''Demo'', opp_owner = ''Sales-1'',
     opp_created_date = ''2026-01-01'', opp_close_date = ''2026-02-01''\<rparr>"

definition opp_proposal :: opportunity where
  "opp_proposal = \<lparr>opp_id = ''O2001'', opp_lead_id = ''L1001'', opp_amount = 4000,
     opp_product = ''Product B'', opp_stage = ''Proposal'', opp_owner = ''Sales-2'',
     opp_created_date = ''2026-01-01'', opp_close_date = ''2026-02-01''\<rparr>"

definition opp_won :: opportunity where
  "opp_won = \<lparr>opp_id = ''O2002'', opp_lead_id = ''L1001'', opp_amount = 9000,
     opp_product = ''Product C'', opp_stage = ''Closed Won'', opp_owner = ''Sales-3'',
     opp_created_date = ''2026-01-01'', opp_close_date = ''2026-02-01''\<rparr>"

definition deal_won :: deal where
  "deal_won = \<lparr>deal_id = ''D3000'', deal_opportunity_id = ''O2002'', deal_amount = 10000,
     deal_close_date = ''2026-01-03'', deal_status = ''Closed Won''\<rparr>"

definition deal_lost :: deal where
  "deal_lost = \<lparr>deal_id = ''D3001'', deal_opportunity_id = ''O2001'', deal_amount = 2500,
     deal_close_date = ''2026-01-04'', deal_status = ''Closed Lost''\<rparr>"

definition sample_data :: data where
  "sample_data = \<lparr>leads = [lead_q, lead_n, lead_n, lead_n],
     opportunities = [opp_demo, opp_won, opp_proposal],
     closed_deals = [deal_won, deal_won, deal_lost, deal_won, deal_won, deal_lost, deal_won,
       deal_won, deal_lost, deal_won]\<rparr>"

definition sample_kpis :: "(string \<times> kval) list" where
  "sample_kpis =
     [(''monthly_revenue'', Num 70000), (''average_deal_size'', Num 10000),
      (''win_rate'', Num 70), (''sales_cycle_days'', Num 14), (''quota_attainment'', Num 70),
      (''pipeline_value'', Num 5000), (''pipeline_velocity'', Num (350 / 3)),
      (''forecast_accuracy'', Num 80),
      (''stage_conversion'',
         Sub [(''Prospecting'', 1 / 5), (''Qualification'', 1 / 5), (''Demo'', 1 / 5)]),
      (''coverage_ratio'', Num (1 / 20)), (''lead_conversion_rate'', Num 25),
      (''cost_per_lead'', Num 50), (''mql_to_sql'', Num 20), (''website_conversion'', Num 1),
      (''cac'', Num 500)]"

section \<open>Verification: the effect calculus\<close>

lemma returnsD: "returns m P \<Longrightarrow> \<exists>x w'. m w = Inr (x, w') \<and> P x"
  by (simp add: returns_def)

lemma returns_return: "P x \<Longrightarrow> returns (return_io x) P"
  by (simp add: returns_def return_io_def)

lemma returns_bind:
  assumes "returns m P" and "\<And>x. P x \<Longrightarrow> returns (f x) Q"
  shows "returns (bind_io m f) Q"
  unfolding returns_def
proof
  fix w
  from assms(1) obtain x w' where m: "m w = Inr (x, w')" and px: "P x"
    unfolding returns_def by blast
  from assms(2)[OF px] obtain y w'' where "f x w' = Inr (y, w'')" and "Q y"
    unfolding returns_def by blast
  with m show "\<exists>y w''. bind_io m f w = Inr (y, w'') \<and> Q y"
    by (simp add: bind_io_def)
qed

lemma returns_weaken: "returns m P \<Longrightarrow> (\<And>x. P x \<Longrightarrow> Q x) \<Longrightarrow> returns m Q"
  unfolding returns_def by blast

lemma returns_getrandbits: "returns getrandbits (\<lambda>r. True)"
  by (simp add: returns_def getrandbits_def)

lemma returns_random: "returns random_random (\<lambda>u. 0 \<le> u \<and> u < 1)"
  unfolding random_random_def
  by (rule returns_bind[OF returns_getrandbits], rule returns_return) simp

lemma returns_uniform:
  assumes "a \<le> b"
  shows "returns (random_uniform a b) (\<lambda>x. a \<le> x \<and> x \<le> b)"
  unfolding random_uniform_def
proof (rule returns_bind[OF returns_random], rule returns_return)
  fix u :: real assume u: "0 \<le> u \<and> u < 1"
  from assms u have "0 \<le> (b - a) * u" by simp
  moreover from assms u have "(b - a) * u \<le> (b - a) * 1"
    by (intro mult_left_mono) auto
  ultimately show "a \<le> a + (b - a) * u \<and> a + (b - a) * u \<le> b" by simp
qed

lemma returns_randint:
  assumes "a \<le> b"
  shows "returns (random_randint a b) (\<lambda>x. a \<le> x \<and> x \<le> b)"
proof -
  have "int (r mod nat (b + 1 - a)) \<le> b - a" for r
  proof -
    have "r mod nat (b + 1 - a) < nat (b + 1 - a)" using assms by simp
    then show ?thesis by linarith
  qed
  then have "returns (bind_io getrandbits (\<lambda>r. return_io (a + int (r mod nat (b + 1 - a)))))
    (\<lambda>x. a \<le> x \<and> x \<le> b)"
    by (intro returns_bind[OF returns_getrandbits] returns_return) (simp add: add.commute le_diff_eq)
  with assms show ?thesis by (simp add: random_randint_def)
qed

lemma returns_choice:
  assumes "seq \<noteq> []"
  shows "returns (random_choice seq) (\<lambda>x. x \<in> set seq)"
  using assms unfolding random_choice_def
  by (simp, intro returns_bind[OF returns_getrandbits] returns_return) simp

lemma returns_fake_company: "returns fake_company (\<lambda>r. True)"
  by (simp add: returns_def fake_company_def)

lemma returns_datetime_now: "returns datetime_now (\<lambda>r. True)"
  by (simp add: returns_def datetime_now_def)

lemma returns_format_date: "returns (format_date d) (\<lambda>r. True)"
  by (simp add: returns_def format_date_def)

lemma returns_comprehension:
  assumes "\<And>i. i \<in> set is \<Longrightarrow> returns (f i) (P i)"
  shows "returns (comprehension f is) (\<lambda>xs. list_all2 P is xs)"
  using assms
proof (induction "is")
  case Nil
  show ?case by (simp add: returns_return)
next
  case (Cons i "is")
  show ?case
    unfolding comprehension.simps
  proof (rule returns_bind[where P = "P i"])
    show "returns (f i) (P i)" using Cons.prems by simp
  next
    fix x assume "P i x"
    then show "returns (bind_io (comprehension f is) (\<lambda>xs. return_io (x # xs)))
        (list_all2 P (i # is))"
      by (intro returns_bind[OF Cons.IH] returns_return) (simp_all add: Cons.prems)
  qed
qed

lemma returns_gen_lead:
  "returns (gen_lead i) (\<lambda>l. lead_id l = ''L'' @ str_int (1000 + i) \<and>
     lead_source l \<in> set [''Web'', ''Referral'', ''Event'', ''Cold Call''] \<and>
     lead_status l \<in> set [''New'', ''Contacted'', ''Qualified'', ''Disqualified''])"
  unfolding gen_lead_def
  by (intro returns_bind[OF returns_fake_company] returns_bind[OF returns_choice]
      returns_bind[OF returns_datetime_now] returns_bind[OF returns_randint]
      returns_bind[OF returns_format_date] returns_return) simp_all

section \<open>Verification: the generator\<close>

lemma digit_value_digit: "d < 10 \<Longrightarrow> digit_value (digit d) = d"
  by (simp add: digit_value_def digit_def)

lemma decimal_value_str_nat: "decimal_value (str_nat n) = n"
proof (induction n rule: str_nat.induct)
  case (1 n)
  show ?case
  proof (cases "n < 10")
    case True
    then show ?thesis
      by (subst str_nat.simps) (simp add: decimal_value_def digit_value_digit)
  next
    case False
    then have "decimal_value (str_nat (n div 10)) = n div 10" using "1" by simp
    with False show ?thesis
      by (subst str_nat.simps) (simp add: decimal_value_def digit_value_digit)
  qed
qed

lemma str_nat_inj: "str_nat m = str_nat n \<Longrightarrow> m = n"
  by (metis decimal_value_str_nat)

lemma str_int_inj: "0 \<le> i \<Longrightarrow> 0 \<le> j \<Longrightarrow> str_int i = str_int j \<Longrightarrow> i = j"
  by (auto simp: str_int_def dest!: str_nat_inj)

lemma sequential_ids_distinct:
  assumes "0 \<le> base"
  shows "distinct (map (\<lambda>i. p @ str_int (base + i)) (py_range n))"
proof -
  have "inj_on (\<lambda>i. p @ str_int (base + i)) (set (py_range n))"
  proof (rule inj_onI)
    fix i j
    assume "i \<in> set (py_range n)" and "j \<in> set (py_range n)"
      and eq: "p @ str_int (base + i) = p @ str_int (base + j)"
    then have "0 \<le> base + i" and "0 \<le> base + j"
      using assms by (simp_all add: py_range_def)
    moreover from eq have "str_int (base + i) = str_int (base + j)" by simp
    ultimately have "base + i = base + j" by (rule str_int_inj)
    then show "i = j" by simp
  qed
  then show ?thesis
    by (simp add: distinct_map py_range_def)
qed

lemma length_py_range: "length (py_range n) = nat n"
  by (simp add: py_range_def)

lemma list_all2_map_eq:
  "list_all2 (\<lambda>i x. g x = h i \<and> R i x) is xs \<Longrightarrow> map g xs = map h is"
  by (induction "is" xs rule: list_all2_induct) simp_all

lemma list_all2_list_all:
  "list_all2 (\<lambda>i x. Q i x \<and> R x) is xs \<Longrightarrow> list_all R xs"
  by (induction "is" xs rule: list_all2_induct) simp_all

lemma returns_generate_leads:
  "returns (generate_leads n) (list_all2 (\<lambda>i l. lead_id l = ''L'' @ str_int (1000 + i) \<and>
     (lead_source l \<in> set [''Web'', ''Referral'', ''Event'', ''Cold Call''] \<and>
     lead_status l \<in> set [''New'', ''Contacted'', ''Qualified'', ''Disqualified''])) (py_range n))"
  unfolding generate_leads_def
  by (rule returns_comprehension) (rule returns_weaken[OF returns_gen_lead], simp)

lemma returns_gen_opportunity:
  "returns (gen_opportunity i) (\<lambda>x. opp_id x = ''O'' @ str_int (2000 + i) \<and>
      (opp_product x \<in> set products \<and> opp_stage x \<in> set stages))"
  unfolding gen_opportunity_def
  by (intro returns_bind[OF returns_choice]
      returns_bind[OF returns_datetime_now] returns_bind[OF returns_randint]
      returns_bind[OF returns_uniform]
      returns_bind[OF returns_format_date] returns_return)
    (simp_all add: products_def stages_def)

lemma returns_subscript0: "xs \<noteq> [] \<Longrightarrow> returns (subscript0 xs) (\<lambda>x. x \<in> set xs)"
  by (cases xs) (simp_all add: subscript0_def returns_return)

lemma returns_choices2:
  "returns (random_choices [a, b] [7 / 10, 3 / 10]) (\<lambda>xs. xs = [a] \<or> xs = [b])"
  unfolding random_choices_def
  by (simp add: Let_def bisect_def, intro returns_bind[OF returns_random] returns_return) simp

lemma returns_gen_closed_deal:
  "returns (gen_closed_deal i) (\<lambda>x. deal_id x = ''D'' @ str_int (3000 + i) \<and>
      deal_status x \<in> set [''Closed Won'', ''Closed Lost''])"
  unfolding gen_closed_deal_def
  apply (intro returns_bind[OF returns_choices2]
      returns_bind[OF returns_datetime_now] returns_bind[OF returns_randint]
      returns_bind[OF returns_uniform] returns_bind[OF returns_subscript0]
      returns_bind[OF returns_format_date] returns_return)
  apply auto
  done

lemma returns_generate_opportunities:
  "returns (generate_opportunities n)
     (list_all2 (\<lambda>i x. opp_id x = ''O'' @ str_int (2000 + i) \<and>
        (opp_product x \<in> set products \<and> opp_stage x \<in> set stages)) (py_range n))"
  unfolding generate_opportunities_def
  by (rule returns_comprehension) (rule returns_gen_opportunity)

lemma returns_generate_closed_deals:
  "returns (generate_closed_deals n)
     (list_all2 (\<lambda>i x. deal_id x = ''D'' @ str_int (3000 + i) \<and>
        deal_status x \<in> set [''Closed Won'', ''Closed Lost'']) (py_range n))"
  unfolding generate_closed_deals_def
  by (rule returns_comprehension) (rule returns_gen_closed_deal)

text \<open>
  Claim C6. For every requested count, each of the three generators returns (it raises
  nothing) exactly that many records, none for a count of zero or less, and the ids of
  the records are, in order, \<open>L1000, L1001, ...\<close> (\<open>O2000, ...\<close> and \<open>D3000, ...\<close>):
  the prefix followed by the decimal numeral of base plus position, all different.
\<close>

theorem generators_sequential_ids:
  "(\<exists>xs w'. generate_leads n w = Inr (xs, w') \<and> length xs = nat n \<and>
      map lead_id xs = map (\<lambda>i. ''L'' @ str_int (1000 + i)) (py_range n) \<and>
      distinct (map lead_id xs)) \<and>
   (\<exists>xs w'. generate_opportunities n w = Inr (xs, w') \<and> length xs = nat n \<and>
      map opp_id xs = map (\<lambda>i. ''O'' @ str_int (2000 + i)) (py_range n) \<and>
      distinct (map opp_id xs)) \<and>
   (\<exists>xs w'. generate_closed_deals n w = Inr (xs, w') \<and> length xs = nat n \<and>
      map deal_id xs = map (\<lambda>i. ''D'' @ str_int (3000 + i)) (py_range n) \<and>
      distinct (map deal_id xs)) \<and>
   (generate_leads 0 w = Inr ([], w) \<and> generate_opportunities 0 w = Inr ([], w) \<and>
    generate_closed_deals 0 w = Inr ([], w))"
proof -
  have L: "\<exists>xs w'. generate_leads n w = Inr (xs, w') \<and> length xs = nat n \<and>
      map lead_id xs = map (\<lambda>i. ''L'' @ str_int (1000 + i)) (py_range n) \<and>
      distinct (map lead_id xs)"
  proof -
    from returnsD[OF returns_generate_leads, of n w] obtain xs w'
      where r: "generate_leads n w = Inr (xs, w')"
        and a: "list_all2 (\<lambda>i l. lead_id l = ''L'' @ str_int (1000 + i) \<and>
          (lead_source l \<in> set [''Web'', ''Referral'', ''Event'', ''Cold Call''] \<and>
           lead_status l \<in> set [''New'', ''Contacted'', ''Qualified'', ''Disqualified'']))
          (py_range n) xs"
      by blast
    have ids: "map lead_id xs = map (\<lambda>i. ''L'' @ str_int (1000 + i)) (py_range n)"
      using a by (rule list_all2_map_eq)
    have "length xs = nat n"
      using list_all2_lengthD[OF a] by (simp add: length_py_range)
    moreover have "distinct (map lead_id xs)"
      unfolding ids by (rule sequential_ids_distinct) simp
    ultimately show ?thesis using r ids by blast
  qed
  have O: "\<exists>xs w'. generate_opportunities n w = Inr (xs, w') \<and> length xs = nat n \<and>
      map opp_id xs = map (\<lambda>i. ''O'' @ str_int (2000 + i)) (py_range n) \<and>
      distinct (map opp_id xs)"
  proof -
    from returnsD[OF returns_generate_opportunities, of n w] obtain xs w'
      where r: "generate_opportunities n w = Inr (xs, w')"
        and a: "list_all2 (\<lambda>i x. opp_id x = ''O'' @ str_int (2000 + i) \<and>
          (opp_product x \<in> set products \<and> opp_stage x \<in> set stages)) (py_range n) xs"
      by blast
    have ids: "map opp_id xs = map (\<lambda>i. ''O'' @ str_int (2000 + i)) (py_range n)"
      using a by (rule list_all2_map_eq)
    have "length xs = nat n"
      using list_all2_lengthD[OF a] by (simp add: length_py_range)
    moreover have "distinct (map opp_id xs)"
      unfolding ids by (rule sequential_ids_distinct) simp
    ultimately show ?thesis using r ids by blast
  qed
  have D: "\<exists>xs w'. generate_closed_deals n w = Inr (xs, w') \<and> length xs = nat n \<and>
      map deal_id xs = map (\<lambda>i. ''D'' @ str_int (3000 + i)) (py_range n) \<and>
      distinct (map deal_id xs)"
  proof -
    from returnsD[OF returns_generate_closed_deals, of n w] obtain xs w'
      where r: "generate_closed_deals n w = Inr (xs, w')"
        and a: "list_all2 (\<lambda>i x. deal_id x = ''D'' @ str_int (3000 + i) \<and>
          deal_status x \<in> set [''Closed Won'', ''Closed Lost'']) (py_range n) xs"
      by blast
    have ids: "map deal_id xs = map (\<lambda>i. ''D'' @ str_int (3000 + i)) (py_range n)"
      using a by (rule list_all2_map_eq)
    have "length xs = nat n"
      using list_all2_lengthD[OF a] by (simp add: length_py_range)
    moreover have "distinct (map deal_id xs)"
      unfolding ids by (rule sequential_ids_distinct) simp
    ultimately show ?thesis using r ids by blast
  qed
  have Z: "generate_leads 0 w = Inr ([], w) \<and> generate_opportunities 0 w = Inr ([], w) \<and>
    generate_closed_deals 0 w = Inr ([], w)"
    by (simp add: generate_leads_def generate_opportunities_def generate_closed_deals_def
        py_range_def return_io_def)
  show ?thesis by (rule conjI[OF L conjI[OF O conjI[OF D Z]]])
qed

text \<open>
  Claim C9, as the code has it. Every record that \<open>generate_leads\<close> returns has its
  source among Web, Referral, Event and Cold Call (two words, as the generator spells it)
  and its status among New, Contacted, Qualified and Disqualified; and the generator
  always returns.
\<close>

theorem generate_leads_enums:
  "\<exists>xs w'. generate_leads n w = Inr (xs, w') \<and>
     list_all (\<lambda>l. lead_source l \<in> set [''Web'', ''Referral'', ''Event'', ''Cold Call''] \<and>
       lead_status l \<in> set [''New'', ''Contacted'', ''Qualified'', ''Disqualified'']) xs"
proof -
  from returnsD[OF returns_generate_leads, of n w] obtain xs w'
    where r: "generate_leads n w = Inr (xs, w')"
      and a: "list_all2 (\<lambda>i l. lead_id l = ''L'' @ str_int (1000 + i) \<and>
     (lead_source l \<in> set [''Web'', ''Referral'', ''Event'', ''Cold Call''] \<and>
     lead_status l \<in> set [''New'', ''Contacted'', ''Qualified'', ''Disqualified''])) (py_range n) xs"
    by blast
  from a have "list_all (\<lambda>l. lead_source l \<in> set [''Web'', ''Referral'', ''Event'', ''Cold Call''] \<and>
       lead_status l \<in> set [''New'', ''Contacted'', ''Qualified'', ''Disqualified'']) xs"
    by (rule list_all2_list_all)
  with r show ?thesis by blast
qed

text \<open>
  With every raw draw equal to 3 the one generated lead has the source \<open>Cold Call\<close>,
  which is none of Web, Referral, Event and ColdCall.
\<close>

theorem generate_leads_cold_call:
  "map_sum id (map lead_source \<circ> fst) (generate_leads 1 world_threes) = Inr [''Cold Call''] \<and>
   ''Cold Call'' \<notin> set [''Web'', ''Referral'', ''Event'', ''ColdCall'']"
  by (simp add: generate_leads_def py_range_def gen_lead_def bind_io_def return_io_def
      fake_company_def random_choice_def getrandbits_def datetime_now_def random_randint_def
      format_date_def world_threes_def)

text \<open>The collector asks for 100 leads, 50 opportunities and 30 closed deals, and gets them.\<close>

lemma returns_length_leads: "returns (generate_leads n) (\<lambda>xs. length xs = nat n)"
  by (rule returns_weaken[OF returns_generate_leads])
    (simp add: list_all2_lengthD[symmetric] length_py_range)

lemma returns_length_opportunities: "returns (generate_opportunities n) (\<lambda>xs. length xs = nat n)"
  by (rule returns_weaken[OF returns_generate_opportunities])
    (simp add: list_all2_lengthD[symmetric] length_py_range)

lemma returns_length_closed_deals: "returns (generate_closed_deals n) (\<lambda>xs. length xs = nat n)"
  by (rule returns_weaken[OF returns_generate_closed_deals])
    (simp add: list_all2_lengthD[symmetric] length_py_range)

lemma returns_collect_data:
  "returns collect_data (\<lambda>d. length (leads d) = 100 \<and> length (opportunities d) = 50 \<and>
     length (closed_deals d) = 30)"
  unfolding collect_data_def
  by (intro returns_bind[OF returns_length_leads] returns_bind[OF returns_length_opportunities]
      returns_bind[OF returns_length_closed_deals] returns_return) simp

section \<open>Verification: the quality checker\<close>

lemma check_records_append:
  "check_records fmt name records issues =
     issues @ map (issue_of fmt name) (filter any_none records)"
  by (induction records arbitrary: issues) (simp_all add: issue_of_def)

lemma check_datasets_append:
  "check_datasets fmt data_items issues = issues @ concat (map (issues_of fmt) data_items)"
proof (induction data_items arbitrary: issues)
  case Nil
  show ?case by simp
next
  case (Cons item data_items)
  obtain name records where item: "item = (name, records)" by (cases item)
  show ?case
    by (simp add: item Cons.IH check_records_append issues_of_def)
qed

text \<open>
  Claim C7, as the code has it. For every mapping from dataset names to record lists the
  checker raises nothing and returns one issue per record with a null field and none for
  the others, dataset after dataset in the order in which the mapping holds them, and in
  list order within a dataset; for the mapping the collector builds this is leads, then
  opportunities, then closed deals. A single record with a null field yields exactly the
  one issue \<open>Missing data in <dataset> record <id>\<close>, where an id that is absent or null
  prints as \<open>None\<close>.
\<close>

theorem issues_in_mapping_order:
  "check_completeness fmt data_items = concat (map (issues_of fmt) data_items) \<and>
   length (check_completeness fmt data_items) =
     length (filter any_none (concat (map snd data_items))) \<and>
   check_completeness fmt [(''leads'', ls), (''opportunities'', os), (''closed_deals'', ds)] =
     issues_of fmt (''leads'', ls) @ issues_of fmt (''opportunities'', os) @
     issues_of fmt (''closed_deals'', ds) \<and>
   check_completeness fmt [(name, [record])] =
     (if any_none record
      then [''Missing data in '' @ name @ '' record '' @ format_value fmt (dict_get record ''id'')]
      else [])"
proof -
  have eq: "check_completeness fmt items = concat (map (issues_of fmt) items)" for items
    by (simp add: check_completeness_def check_datasets_append)
  have "length (concat (map (issues_of fmt) items)) =
      length (filter any_none (concat (map snd items)))" for items
    by (induction items) (simp_all add: issues_of_def)
  then show ?thesis
    by (simp add: eq) (simp add: issues_of_def issue_of_def)
qed

text \<open>
  A mapping that holds the closed deals before the leads: the issue of the deal comes
  first, not the issue of the lead.
\<close>

theorem issues_of_reordered_mapping:
  "check_completeness (\<lambda>s. s)
     [(''closed_deals'', [[(''id'', Some ''D3000''), (''amount'', None)]]),
      (''opportunities'', []),
      (''leads'', [[(''id'', Some ''L1000''), (''name'', None)]])] =
     [''Missing data in closed_deals record D3000'', ''Missing data in leads record L1000''] \<and>
   check_completeness (\<lambda>s. s)
     [(''closed_deals'', [[(''id'', Some ''D3000''), (''amount'', None)]]),
      (''opportunities'', []),
      (''leads'', [[(''id'', Some ''L1000''), (''name'', None)]])] \<noteq>
     [''Missing data in leads record L1000'', ''Missing data in closed_deals record D3000'']"
  by (simp add: check_completeness_def any_none_def format_value_def dict_get_def)

section \<open>Verification: the KPI calculator\<close>

lemma skip_0: "skip 0 w = w"
  by (simp add: skip_def)

lemma getrandbits_skip: "getrandbits (skip n w) = Inr (entropy w n, skip (Suc n) w)"
  by (simp add: getrandbits_def skip_def)

lemma random_uniform_skip:
  "random_uniform a b (skip n w) = Inr (uniform_draw w n a b, skip (Suc n) w)"
  by (simp add: random_uniform_def random_random_def bind_io_def return_io_def
      getrandbits_skip uniform_draw_def unit_draw_def)

lemma loc_rows: "rows df = xs \<Longrightarrow> rows (loc df (map g xs)) = filter g xs"
proof -
  have "map fst (filter snd (zip xs (map g xs))) = filter g xs"
    by (induction xs) simp_all
  then show "rows df = xs \<Longrightarrow> rows (loc df (map g xs)) = filter g xs"
    by (simp add: loc_def)
qed

lemma loc_columns: "columns (loc df keep) = columns df"
  by (simp add: loc_def)

lemma stage_conversion_skip:
  "comprehension stage_draw [''Prospecting'', ''Qualification'', ''Demo''] (skip n w) =
     Inr ([(''Prospecting'', uniform_draw w n (2 / 10) (8 / 10)),
           (''Qualification'', uniform_draw w (Suc n) (2 / 10) (8 / 10)),
           (''Demo'', uniform_draw w (Suc (Suc n)) (2 / 10) (8 / 10))], skip (Suc (Suc (Suc n))) w)"
  by (simp add: stage_draw_def bind_io_def return_io_def random_uniform_skip)

lemma calculate_empty_deals:
  "closed_deals d = [] \<Longrightarrow> calculate d w = Inl (KeyError ''status'')"
  by (simp add: calculate_def DataFrame_def getitem_def bind_io_def lift_io_def)

lemma calculate_empty_opportunities:
  "closed_deals d \<noteq> [] \<Longrightarrow> opportunities d = [] \<Longrightarrow> calculate d w = Inl (KeyError ''stage'')"
  by (simp add: calculate_def DataFrame_def getitem_def bind_io_def lift_io_def deal_keys_def)

lemma calculate_empty_leads:
  "closed_deals d \<noteq> [] \<Longrightarrow> opportunities d \<noteq> [] \<Longrightarrow> leads d = [] \<Longrightarrow>
     calculate d w = Inl (KeyError ''status'')"
  by (simp add: calculate_def DataFrame_def getitem_def bind_io_def lift_io_def deal_keys_def
      opportunity_keys_def)

lemma kpi_dict_skip:
  assumes "''amount'' \<in> set (columns won_deals)" and "''amount'' \<in> set (columns open_opps)"
    and "rows df_leads \<noteq> []"
  shows "kpi_dict df_leads won_deals total_deals open_opps qualified_leads (skip 0 w) =
     Inr ([(''monthly_revenue'', Num (sum_list (map deal_amount (rows won_deals)))),
        (''average_deal_size'',
           Num (if rows won_deals = [] then 0
                else sum_list (map deal_amount (rows won_deals)) / real (length (rows won_deals)))),
        (''win_rate'',
           Num (if total_deals = 0 then 0
                else real (length (rows won_deals)) / real total_deals * 100)),
        (''sales_cycle_days'', Num (uniform_draw w 0 14 45)),
        (''quota_attainment'', Num (uniform_draw w 1 70 120)),
        (''pipeline_value'', Num (sum_list (map opp_amount (rows open_opps)))),
        (''pipeline_velocity'', Num (sum_list (map opp_amount (rows open_opps)) * (7 / 10) / 30)),
        (''forecast_accuracy'', Num (uniform_draw w 2 80 95)),
        (''stage_conversion'',
           Sub [(''Prospecting'', uniform_draw w 3 (2 / 10) (8 / 10)),
                (''Qualification'', uniform_draw w 4 (2 / 10) (8 / 10)),
                (''Demo'', uniform_draw w 5 (2 / 10) (8 / 10))]),
        (''coverage_ratio'',
           Num (if rows open_opps = [] then 0
                else sum_list (map opp_amount (rows open_opps)) / 100000)),
        (''lead_conversion_rate'',
           Num (real (length (rows qualified_leads)) / real (length (rows df_leads)) * 100)),
        (''cost_per_lead'', Num (uniform_draw w 6 50 200)),
        (''mql_to_sql'', Num (uniform_draw w 7 20 50)),
        (''website_conversion'', Num (uniform_draw w 8 1 5)),
        (''cac'', Num (uniform_draw w 9 500 2000))], skip 10 w)"
proof -
  from assms(1) have "columns won_deals \<noteq> []" by auto
  with assms show ?thesis
    unfolding kpi_dict_def
    by (simp add: bind_io_def return_io_def lift_io_def getitem_def random_uniform_skip
      stage_conversion_skip empty_frame_def len_def truediv_def series_sum_def series_mean_def
      eval_nat_numeral del: comprehension.simps)
qed

lemma calculate_nonempty:
  assumes "closed_deals d \<noteq> []" "opportunities d \<noteq> []" "leads d \<noteq> []"
  shows "calculate d w = Inr (kpi_formulas d w, skip 10 w)"
proof -
  have "calculate d (skip 0 w) = Inr (kpi_formulas d w, skip 10 w)"
    using assms
    unfolding calculate_def Let_def
    by (simp add: bind_io_def lift_io_def getitem_def DataFrame_def deal_keys_def
        opportunity_keys_def lead_keys_def kpi_dict_skip loc_rows loc_columns len_def
        kpi_formulas_def Let_def comp_def)
  then show ?thesis by (simp add: skip_0)
qed

lemma skip_world_zeros: "skip n world_zeros = world_zeros"
  by (simp add: skip_def world_zeros_def)

lemma uniform_draw_zeros: "uniform_draw world_zeros i a b = a"
  by (simp add: uniform_draw_def unit_draw_def world_zeros_def)

lemma calculate_sample: "calculate sample_data world_zeros = Inr (sample_kpis, world_zeros)"
proof -
  have "kpi_formulas sample_data world_zeros = sample_kpis"
    by (simp add: kpi_formulas_def sample_data_def sample_kpis_def uniform_draw_zeros
        deal_won_def deal_lost_def opp_demo_def opp_won_def opp_proposal_def lead_q_def lead_n_def)
  moreover have "calculate sample_data world_zeros =
      Inr (kpi_formulas sample_data world_zeros, skip 10 world_zeros)"
    by (rule calculate_nonempty) (simp_all add: sample_data_def)
  ultimately show ?thesis by (simp add: skip_world_zeros)
qed

lemma uniform_draw_bounds:
  assumes "a \<le> b"
  shows "a \<le> uniform_draw w i a b \<and> uniform_draw w i a b \<le> b"
proof -
  have u: "0 \<le> unit_draw w i \<and> unit_draw w i \<le> 1"
    by (simp add: unit_draw_def)
  with assms have "0 \<le> (b - a) * unit_draw w i" by simp
  moreover from assms u have "(b - a) * unit_draw w i \<le> (b - a) * 1"
    by (intro mult_left_mono) auto
  ultimately show ?thesis by (simp add: uniform_draw_def)
qed

lemma calculate_returns_formulas:
  assumes "calculate d w = Inr (k, w')"
  shows "k = kpi_formulas d w"
proof -
  have "closed_deals d \<noteq> []" using assms calculate_empty_deals[of d w] by auto
  moreover have "opportunities d \<noteq> []"
    using assms calculate_empty_opportunities[of d w] calculate_empty_deals[of d w] by auto
  moreover have "leads d \<noteq> []"
    using assms calculate_empty_opportunities[of d w] calculate_empty_deals[of d w]
      calculate_empty_leads[of d w] by auto
  ultimately show ?thesis using assms calculate_nonempty[of d w] by simp
qed

text \<open>
  Claim C1. The win rate is to be 0, with no fault, when the closed-deals collection is
  empty. The frame built from an empty collection has no \<open>status\<close> column: the
  calculator raises KeyError on the first selection, before the guard on the number of
  closed deals is reached.
\<close>

theorem win_rate_empty_deals:
  "calculate \<lparr>leads = [lead_q], opportunities = [opp_demo], closed_deals = []\<rparr> world_zeros =
     Inl (KeyError ''status'')"
  by (rule calculate_empty_deals) simp

text \<open>
  Claim C2. Average deal size and monthly revenue are to be 0 when no deal is won. For
  the worked example with its closed deals removed the calculator raises KeyError
  instead of returning them.
\<close>

theorem average_deal_size_empty_deals:
  "calculate (sample_data\<lparr>closed_deals := []\<rparr>) world_zeros = Inl (KeyError ''status'')"
  by (rule calculate_empty_deals) simp

text \<open>
  Claim C3. The lead conversion rate is to be 0 for an empty lead collection. The guard
  on the number of leads is never reached with none: selecting the \<open>status\<close> column of
  the empty frame raises KeyError.
\<close>

theorem lead_conversion_empty_leads:
  "calculate (sample_data\<lparr>leads := []\<rparr>) world_zeros = Inl (KeyError ''status'')"
  by (rule calculate_empty_leads) (simp_all add: sample_data_def)

text \<open>
  Claim C4. Pipeline value is to be the sum of the open opportunities' amounts, and
  pipeline velocity seven tenths of it over 30, for every opportunities collection. For
  the empty collection, whose sum is 0, the calculator raises KeyError on the \<open>stage\<close>
  column.
\<close>

theorem pipeline_value_empty_opportunities:
  "calculate (sample_data\<lparr>opportunities := []\<rparr>) world_zeros = Inl (KeyError ''stage'')"
  by (rule calculate_empty_opportunities) (simp_all add: sample_data_def)

text \<open>
  Claim C5. The coverage ratio is to be 0 when there are no open opportunities. With no
  opportunities at all the calculator raises KeyError on the \<open>stage\<close> column.
\<close>

theorem coverage_ratio_empty_opportunities:
  "calculate \<lparr>leads = [lead_q], opportunities = [], closed_deals = [deal_won]\<rparr> world_zeros =
     Inl (KeyError ''stage'')"
  by (rule calculate_empty_opportunities) simp_all

text \<open>
  Claim C10. Whenever the calculator returns, its mapping has exactly the fifteen keys
  monthly_revenue, average_deal_size, win_rate, sales_cycle_days, quota_attainment,
  pipeline_value, pipeline_velocity, forecast_accuracy, stage_conversion, coverage_ratio,
  lead_conversion_rate, cost_per_lead, mql_to_sql, website_conversion and cac, each once,
  and stage_conversion is a mapping with exactly the keys Prospecting, Qualification and
  Demo whose values lie between 0.2 and 0.8.
\<close>

theorem kpi_mapping_keys:
  assumes "calculate d w = Inr (k, w')"
  shows "length k = 15 \<and>
     map fst k = [''monthly_revenue'', ''average_deal_size'', ''win_rate'', ''sales_cycle_days'',
       ''quota_attainment'', ''pipeline_value'', ''pipeline_velocity'', ''forecast_accuracy'',
       ''stage_conversion'', ''coverage_ratio'', ''lead_conversion_rate'', ''cost_per_lead'',
       ''mql_to_sql'', ''website_conversion'', ''cac''] \<and>
     distinct (map fst k) \<and>
     (\<exists>sc. map_of k ''stage_conversion'' = Some (Sub sc) \<and>
        map fst sc = [''Prospecting'', ''Qualification'', ''Demo''] \<and>
        list_all (\<lambda>v. 2 / 10 \<le> v \<and> v \<le> 8 / 10) (map snd sc))"
proof -
  have k: "k = kpi_formulas d w" using assms by (rule calculate_returns_formulas)
  have b: "(2 / 10 :: real) \<le> uniform_draw w i (2 / 10) (8 / 10) \<and>
      uniform_draw w i (2 / 10) (8 / 10) \<le> 8 / 10" for i
    by (rule uniform_draw_bounds) simp
  show ?thesis
    unfolding k kpi_formulas_def Let_def using b[of 3] b[of 4] b[of 5] by simp
qed

theorem kpi_mapping_keys_witness:
  "calculate sample_data world_zeros = Inr (sample_kpis, world_zeros) \<and>
   length sample_kpis = 15 \<and>
   map fst sample_kpis = [''monthly_revenue'', ''average_deal_size'', ''win_rate'',
       ''sales_cycle_days'', ''quota_attainment'', ''pipeline_value'', ''pipeline_velocity'',
       ''forecast_accuracy'', ''stage_conversion'', ''coverage_ratio'', ''lead_conversion_rate'',
       ''cost_per_lead'', ''mql_to_sql'', ''website_conversion'', ''cac''] \<and>
   map_of sample_kpis ''stage_conversion'' =
     Some (Sub [(''Prospecting'', 1 / 5), (''Qualification'', 1 / 5), (''Demo'', 1 / 5)])"
  using kpi_mapping_keys[OF calculate_sample] calculate_sample
  by (simp add: sample_kpis_def)

section \<open>Verification: the forecaster\<close>

text \<open>
  Every mapping the calculator returns holds numbers for monthly_revenue and for
  lead_conversion_rate, the latter a percentage between 0 and 100, so that its double
  is far from the largest finite double.
\<close>

lemma conversion_rate_percentage:
  "0 \<le> real (length (filter P xs)) / real (length xs) * 100 \<and>
   real (length (filter P xs)) / real (length xs) * 100 \<le> 100"
proof (cases "xs = []")
  case True
  then show ?thesis by simp
next
  case False
  have "real (length (filter P xs)) \<le> real (length xs)"
    by (simp add: length_filter_le)
  with False show ?thesis by (simp add: divide_le_eq)
qed

lemma calculate_forecast_ready:
  assumes "calculate d w0 = Inr (kpis, w1)"
  shows "\<exists>r c. map_of kpis ''monthly_revenue'' = Some (Num r) \<and>
     map_of kpis ''lead_conversion_rate'' = Some (Num c) \<and> 0 \<le> c \<and> c \<le> 100 \<and>
     \<bar>c * 2\<bar> \<le> float_max"
proof -
  have k: "kpis = kpi_formulas d w0" using assms by (rule calculate_returns_formulas)
  define c where "c = (if leads d = [] then 0
     else real (length (filter (\<lambda>x. lead_status x = ''Qualified'') (leads d))) /
          real (length (leads d)) * 100)"
  have c: "0 \<le> c \<and> c \<le> 100"
    using conversion_rate_percentage[of "\<lambda>x. lead_status x = ''Qualified''" "leads d"]
    by (simp add: c_def)
  have "(200 :: real) \<le> float_max" by (simp add: float_max_def)
  with c have "\<bar>c * 2\<bar> \<le> float_max" by simp
  moreover have "map_of kpis ''lead_conversion_rate'' = Some (Num c)"
    by (simp add: k kpi_formulas_def Let_def c_def)
  moreover have "\<exists>r. map_of kpis ''monthly_revenue'' = Some (Num r)"
    by (simp add: k kpi_formulas_def Let_def)
  ultimately show ?thesis using c by blast
qed

text \<open>A doubled rate beyond the largest finite double makes \<open>int\<close> raise OverflowError.\<close>

lemma forecast_overflow:
  assumes "map_of kpis ''monthly_revenue'' = Some (Num r)"
    and "map_of kpis ''lead_conversion_rate'' = Some (Num c)"
    and "float_max < \<bar>c * 2\<bar>"
  shows "forecast kpis w = Inl OverflowError"
proof -
  have "forecast kpis (skip 0 w) = Inl OverflowError"
    using assms
    by (simp add: forecast_def bind_io_def lift_io_def return_io_def dict_item_def
        dict_get_default_def random_uniform_skip)
  then show ?thesis by (simp add: skip_0)
qed

lemma forecast_overflow_example:
  "forecast [(''monthly_revenue'', Num 70000), (''lead_conversion_rate'', Num (10 ^ 308))]
     world_zeros = Inl OverflowError"
  by (rule forecast_overflow[where r = 70000 and c = "10 ^ 308"]) (simp_all add: float_max_def)

text \<open>
  Claim C8. For every KPI mapping, that is one holding numbers for monthly_revenue and
  lead_conversion_rate with the doubled rate a finite float (as in every mapping the
  calculator returns), the forecaster raises nothing, takes exactly one draw from the
  random source and returns next_30d_revenue as monthly_revenue times that draw, the
  \<open>uniform(0.9, 1.2)\<close> of the first raw draw of the world and so between 0.9 and 1.2,
  and next_30d_leads as twice the lead conversion rate truncated to an integer. It reads
  the mapping and the random source only.
\<close>

theorem forecast_derived:
  assumes "map_of kpis ''monthly_revenue'' = Some (Num r)"
    and "map_of kpis ''lead_conversion_rate'' = Some (Num c)"
    and "\<bar>c * 2\<bar> \<le> float_max"
  shows "forecast kpis w =
        Inr ([(''next_30d_revenue'', Num (r * uniform_draw w 0 (9 / 10) (12 / 10))),
              (''next_30d_leads'', Num (of_int (trunc (c * 2))))], skip 1 w) \<and>
      9 / 10 \<le> uniform_draw w 0 (9 / 10) (12 / 10) \<and>
      uniform_draw w 0 (9 / 10) (12 / 10) \<le> 12 / 10"
proof -
  have "forecast kpis (skip 0 w) =
      Inr ([(''next_30d_revenue'', Num (r * uniform_draw w 0 (9 / 10) (12 / 10))),
            (''next_30d_leads'', Num (of_int (trunc (c * 2))))], skip 1 w)"
    using assms
    by (simp add: forecast_def bind_io_def lift_io_def return_io_def dict_item_def
        dict_get_default_def random_uniform_skip)
  moreover have "(9 / 10 :: real) \<le> uniform_draw w 0 (9 / 10) (12 / 10) \<and>
      uniform_draw w 0 (9 / 10) (12 / 10) \<le> 12 / 10"
    by (rule uniform_draw_bounds) simp
  ultimately show ?thesis by (simp add: skip_0)
qed

theorem forecast_derived_witness:
  "map_of sample_kpis ''monthly_revenue'' = Some (Num 70000) \<and>
   map_of sample_kpis ''lead_conversion_rate'' = Some (Num 25) \<and>
   \<bar>25 * 2\<bar> \<le> float_max \<and>
   forecast sample_kpis world_zeros =
     Inr ([(''next_30d_revenue'', Num 63000), (''next_30d_leads'', Num 50)], world_zeros)"
proof -
  have a: "map_of sample_kpis ''monthly_revenue'' = Some (Num 70000)"
    by (simp add: sample_kpis_def)
  have b: "map_of sample_kpis ''lead_conversion_rate'' = Some (Num 25)"
    by (simp add: sample_kpis_def)
  have c: "\<bar>25 * 2\<bar> \<le> float_max"
    by (simp add: float_max_def)
  have "of_int (trunc (25 * 2)) = (50 :: real)" by (simp add: trunc_def)
  with forecast_derived[OF a b c, of world_zeros] a b c show ?thesis
    by (simp add: uniform_draw_zeros skip_world_zeros)
qed

end
